theory Spec2Isabelle
  imports Main
begin

section \<open>JavaScript strings\<close>

text \<open>
  Strings are lists of characters. \<open>split_on sep s\<close> is \<open>s.split(sep)\<close> for a
  one-character separator: the pieces between the separators, so the empty string gives
  one empty piece and a trailing separator gives a trailing empty piece.
\<close>

definition newline :: char where
  "newline = CHR 0x0A"

fun split_on :: "char \<Rightarrow> string \<Rightarrow> string list" where
  "split_on sep [] = [[]]"
| "split_on sep (c # cs) =
     (if c = sep then [] # split_on sep cs
      else (case split_on sep cs of
              [] \<Rightarrow> [[c]]
            | p # ps \<Rightarrow> (c # p) # ps))"

text \<open>\<open>join sep xs\<close> is \<open>xs.join(sep)\<close>.\<close>

fun join :: "string \<Rightarrow> string list \<Rightarrow> string" where
  "join sep [] = []"
| "join sep [x] = x"
| "join sep (x # y # ys) = x @ sep @ join sep (y # ys)"

text \<open>
  The decimal digits of a counter, as a template literal \<open>`${n}`\<close> prints an integer
  (the counters of this file are small integers, which JavaScript prints without exponent).
\<close>

fun digits_of :: "nat \<Rightarrow> string" where
  "digits_of n =
     (if n < 10 then [''0123456789'' ! n]
      else digits_of (n div 10) @ [''0123456789'' ! (n mod 10)])"

declare digits_of.simps [simp del]

definition int_to_string :: "int \<Rightarrow> string" where
  "int_to_string i = (if i < 0 then CHR ''-'' # digits_of (nat (- i)) else digits_of (nat i))"


section \<open>The diff library used by diffUtils.ts\<close>

text \<open>
  diffUtils.ts calls the external diff-match-patch library through one shared instance
  \<open>dmp\<close>. A diff is a list of pairs \<open>(operation, text)\<close> with operation \<open>1\<close> (insert),
  \<open>-1\<close> (delete) or \<open>0\<close> (equal). The library is not part of the repository, so its
  functions are modelled here as far as the properties below need them, and a result
  \<open>None\<close> says that the library's answer is outside the modelled part (it is never an
  exception of the library).
\<close>

type_synonym 'a diff = "int \<times> 'a list"

fun diff_commonPrefix :: "'a list \<Rightarrow> 'a list \<Rightarrow> nat" where
  "diff_commonPrefix (x # xs) (y # ys) = (if x = y then Suc (diff_commonPrefix xs ys) else 0)"
| "diff_commonPrefix [] ys = 0"
| "diff_commonPrefix (x # xs) [] = 0"

definition diff_commonSuffix :: "'a list \<Rightarrow> 'a list \<Rightarrow> nat" where
  "diff_commonSuffix text1 text2 = diff_commonPrefix (rev text1) (rev text2)"

text \<open>\<open>occurs_in short long\<close> is \<open>long.indexOf(short) != -1\<close>.\<close>

fun occurs_in :: "'a list \<Rightarrow> 'a list \<Rightarrow> bool" where
  "occurs_in short [] = (short = [])"
| "occurs_in short (c # cs) = (take (length short) (c # cs) = short \<or> occurs_in short cs)"

text \<open>
  Modelled from the spec: the external diff-computation collaborator, which the spec
  treats as a black box returning an ordered sequence of (operation, text) pairs. What is
  missing from the sources is the library function \<open>diff_compute_\<close>; the model follows
  the library on its first cases: one text empty after the common prefix and suffix are
  removed, and a shorter text of one character that does not occur in the longer one
  (delete the old text, insert the new one). Where the library goes on to its half-match
  and bisection searches, which run against a wall-clock deadline, the model is \<open>None\<close>.
\<close>

definition diff_compute :: "'a list \<Rightarrow> 'a list \<Rightarrow> 'a diff list option" where
  "diff_compute text1 text2 =
     (if text1 = [] then Some [(1, text2)]
      else if text2 = [] then Some [(- 1, text1)]
      else
        (let longtext = (if length text1 > length text2 then text1 else text2);
             shorttext = (if length text1 > length text2 then text2 else text1)
         in if occurs_in shorttext longtext then None
            else if length shorttext = 1 then Some [(- 1, text1), (1, text2)]
            else None))"

text \<open>
  Modelled from the spec: the library function \<open>diff_cleanupMerge\<close>, which
  \<open>diff_main\<close> runs on its result. It reorders and merges neighbouring edits and shifts
  a single edit that lies between two equalities when its text ends with the equality
  before it or starts with the equality after it. The model covers the lists on which the
  pass changes nothing: at most one equality before and after a single edit that cannot
  be shifted, or a deletion followed by an insertion with no common prefix or suffix.
\<close>

definition is_edit :: "int \<Rightarrow> bool" where
  "is_edit operation = (operation = 1 \<or> operation = - 1)"

fun diff_cleanupMerge :: "'a diff list \<Rightarrow> 'a diff list option" where
  "diff_cleanupMerge [(op1, t)] =
     (if is_edit op1 \<and> t \<noteq> [] then Some [(op1, t)] else None)"
| "diff_cleanupMerge [(op1, t1), (op2, t2)] =
     (if t1 = [] \<or> t2 = [] then None
      else if op1 = 0 \<and> is_edit op2 then Some [(op1, t1), (op2, t2)]
      else if is_edit op1 \<and> op2 = 0 then Some [(op1, t1), (op2, t2)]
      else if op1 = - 1 \<and> op2 = 1 \<and> diff_commonPrefix t2 t1 = 0 \<and> diff_commonSuffix t2 t1 = 0
        then Some [(op1, t1), (op2, t2)]
      else None)"
| "diff_cleanupMerge [(op1, t1), (op2, t2), (op3, t3)] =
     (if t1 = [] \<or> t2 = [] \<or> t3 = [] then None
      else if op1 = 0 \<and> is_edit op2 \<and> op3 = 0 then
        (if drop (length t2 - length t1) t2 = t1 \<or> take (length t3) t2 = t3 then None
         else Some [(op1, t1), (op2, t2), (op3, t3)])
      else if op1 = 0 \<and> op2 = - 1 \<and> op3 = 1
              \<and> diff_commonPrefix t3 t2 = 0 \<and> diff_commonSuffix t3 t2 = 0
        then Some [(op1, t1), (op2, t2), (op3, t3)]
      else if op1 = - 1 \<and> op2 = 1 \<and> op3 = 0
              \<and> diff_commonPrefix t2 t1 = 0 \<and> diff_commonSuffix t2 t1 = 0
        then Some [(op1, t1), (op2, t2), (op3, t3)]
      else None)"
| "diff_cleanupMerge [(op1, t1), (op2, t2), (op3, t3), (op4, t4)] =
     (if t1 = [] \<or> t2 = [] \<or> t3 = [] \<or> t4 = [] then None
      else if op1 = 0 \<and> op2 = - 1 \<and> op3 = 1 \<and> op4 = 0
              \<and> diff_commonPrefix t3 t2 = 0 \<and> diff_commonSuffix t3 t2 = 0
        then Some [(op1, t1), (op2, t2), (op3, t3), (op4, t4)]
      else None)"
| "diff_cleanupMerge ds = None"

text \<open>
  Modelled from the spec: the library function \<open>diff_main(text1, text2, false)\<close>. Equal
  texts give one equality, or no operation at all when they are empty; otherwise the
  common prefix and the common suffix are cut off, the middle is given to
  \<open>diff_compute\<close>, the prefix and suffix come back as equalities when they are not
  empty, and \<open>diff_cleanupMerge\<close> runs on the result.
\<close>

definition diff_main :: "'a list \<Rightarrow> 'a list \<Rightarrow> 'a diff list option" where
  "diff_main text1 text2 =
     (if text1 = text2 then Some (if text1 \<noteq> [] then [(0, text1)] else [])
      else
        (let n = diff_commonPrefix text1 text2;
             commonprefix = take n text1;
             text1a = drop n text1;
             text2a = drop n text2;
             m = diff_commonSuffix text1a text2a;
             commonsuffix = drop (length text1a - m) text1a;
             text1b = take (length text1a - m) text1a;
             text2b = take (length text2a - m) text2a
         in case diff_compute text1b text2b of
              None \<Rightarrow> None
            | Some diffs \<Rightarrow>
                diff_cleanupMerge
                  ((if commonprefix \<noteq> [] then [(0, commonprefix)] else []) @ diffs
                   @ (if commonsuffix \<noteq> [] then [(0, commonsuffix)] else []))))"

text \<open>
  Modelled from the spec: the library function \<open>diff_cleanupSemantic\<close>, which rewrites a
  diff in place. On a diff with no operation none of its loops runs; every other diff is
  outside the model.
\<close>

fun diff_cleanupSemantic :: "'a diff list \<Rightarrow> 'a diff list option" where
  "diff_cleanupSemantic [] = Some []"
| "diff_cleanupSemantic (d # ds) = None"

text \<open>
  Modelled from the spec: the library functions \<open>diff_linesToChars_\<close> and
  \<open>diff_charsToLines_\<close> ("each distinct line maps to a single synthetic character ...
  and the result is decoded back into full lines"). A text is cut into its lines, each
  keeping its line feed; every distinct line gets the next free index of \<open>lineArray\<close>,
  whose entry 0 is an unused empty string, and the encoded text is the list of these
  indices. The library encodes at most 40000 distinct lines of the first text this way;
  texts with more are outside the model.
\<close>

fun lines_of :: "string \<Rightarrow> string \<Rightarrow> string list" where
  "lines_of acc [] = (if acc = [] then [] else [rev acc])"
| "lines_of acc (c # cs) =
     (if c = newline then rev (c # acc) # lines_of [] cs else lines_of (c # acc) cs)"

fun index_of :: "'a \<Rightarrow> 'a list \<Rightarrow> nat option" where
  "index_of x [] = None"
| "index_of x (y # ys) = (if x = y then Some 0 else map_option Suc (index_of x ys))"

fun diff_linesToCharsMunge :: "string list \<Rightarrow> string list \<Rightarrow> nat list \<times> string list" where
  "diff_linesToCharsMunge lineArray [] = ([], lineArray)"
| "diff_linesToCharsMunge lineArray (line # rest) =
     (case index_of line lineArray of
        Some k \<Rightarrow>
          (case diff_linesToCharsMunge lineArray rest of
             (chars, lineArray') \<Rightarrow> (k # chars, lineArray'))
      | None \<Rightarrow>
          (case diff_linesToCharsMunge (lineArray @ [line]) rest of
             (chars, lineArray') \<Rightarrow> (length lineArray # chars, lineArray')))"

definition diff_linesToChars :: "string \<Rightarrow> string \<Rightarrow> (nat list \<times> nat list \<times> string list) option" where
  "diff_linesToChars text1 text2 =
     (case diff_linesToCharsMunge [[]] (lines_of [] text1) of
        (chars1, lineArray1) \<Rightarrow>
          (case diff_linesToCharsMunge lineArray1 (lines_of [] text2) of
             (chars2, lineArray) \<Rightarrow>
               (if length lineArray \<le> 40000 then Some (chars1, chars2, lineArray) else None)))"

definition diff_charsToLines :: "nat diff list \<Rightarrow> string list \<Rightarrow> char diff list" where
  "diff_charsToLines diffs lineArray =
     map (\<lambda>(operation, chars).
            (operation, concat (map (\<lambda>k. if k < length lineArray then lineArray ! k else []) chars)))
         diffs"


section \<open>diffUtils.ts\<close>

datatype diff_kind = Added | Removed | Unchanged

record DiffResult =
  type :: diff_kind
  text' :: string
  lineNumber :: "int option"

record DiffLine =
  type :: diff_kind
  text' :: string
  oldLineNumber :: "int option"
  newLineNumber :: "int option"

datatype diff_mode = Line_mode | Word_mode | Char_mode

subsection \<open>diffLineMode\<close>

definition diffLineMode :: "string \<Rightarrow> string \<Rightarrow> char diff list option" where
  "diffLineMode text1 text2 =
     (case diff_linesToChars text1 text2 of
        None \<Rightarrow> None
      | Some (lineText1, lineText2, lineArray) \<Rightarrow>
          (case diff_main lineText1 lineText2 of
             None \<Rightarrow> None
           | Some diffs \<Rightarrow> Some (diff_charsToLines diffs lineArray)))"

subsection \<open>computeDiff\<close>

text \<open>
  The body of the inner loop of \<open>computeDiff\<close> for one line: the state is the pair of
  \<open>results\<close> and the counter \<open>lineNumber\<close>. A line that is not the last of its
  operation gets its line feed back; the last one is pushed only when it is not empty.
\<close>

definition computeDiff_push :: "int \<Rightarrow> string \<Rightarrow> DiffResult list \<times> int \<Rightarrow> DiffResult list \<times> int" where
  "computeDiff_push operation t st =
     (case st of (results, lineNum) \<Rightarrow>
        (if operation = 1 then
           (results @ [\<lparr>DiffResult.type = Added, text' = t, lineNumber = Some lineNum\<rparr>],
            lineNum)
         else if operation = - 1 then
           (results @ [\<lparr>DiffResult.type = Removed, text' = t, lineNumber = Some lineNum\<rparr>],
            lineNum)
         else
           (results @ [\<lparr>DiffResult.type = Unchanged, text' = t, lineNumber = Some lineNum\<rparr>],
            lineNum + 1)))"

fun computeDiff_lines :: "int \<Rightarrow> string list \<Rightarrow> DiffResult list \<times> int \<Rightarrow> DiffResult list \<times> int" where
  "computeDiff_lines operation [] st = st"
| "computeDiff_lines operation (line # rest) st =
     computeDiff_lines operation rest
       (if rest \<noteq> [] then computeDiff_push operation (line @ [newline]) st
        else if line \<noteq> [] then computeDiff_push operation line st
        else st)"

fun computeDiff_loop :: "char diff list \<Rightarrow> DiffResult list \<times> int \<Rightarrow> DiffResult list \<times> int" where
  "computeDiff_loop [] st = st"
| "computeDiff_loop ((operation, t) # diffs) st =
     computeDiff_loop diffs (computeDiff_lines operation (split_on newline t) st)"

definition computeDiff_results :: "char diff list \<Rightarrow> DiffResult list" where
  "computeDiff_results diffs = fst (computeDiff_loop diffs ([], 1))"

definition computeDiff :: "string \<Rightarrow> string \<Rightarrow> diff_mode \<Rightarrow> DiffResult list option" where
  "computeDiff oldText newText mode =
     map_option computeDiff_results
       (case mode of
          Line_mode \<Rightarrow> diffLineMode oldText newText
        | Word_mode \<Rightarrow>
            (case diff_main oldText newText of
               None \<Rightarrow> None
             | Some diffs \<Rightarrow> diff_cleanupSemantic diffs)
        | Char_mode \<Rightarrow> diff_main oldText newText)"

subsection \<open>computeLineDiff\<close>

text \<open>
  The state of the loops of \<open>computeLineDiff\<close> is the triple of \<open>results\<close>,
  \<open>oldLineNum\<close> and \<open>newLineNum\<close>; \<open>n++\<close> stores the old value and adds one.
\<close>

definition computeLineDiff_push ::
  "int \<Rightarrow> string \<Rightarrow> DiffLine list \<times> int \<times> int \<Rightarrow> DiffLine list \<times> int \<times> int" where
  "computeLineDiff_push operation line st =
     (case st of (results, oldLineNum, newLineNum) \<Rightarrow>
        (if operation = 1 then
           (results @ [\<lparr>type = Added, text' = line,
                         oldLineNumber = None, newLineNumber = Some newLineNum\<rparr>],
            oldLineNum, newLineNum + 1)
         else if operation = - 1 then
           (results @ [\<lparr>type = Removed, text' = line,
                         oldLineNumber = Some oldLineNum, newLineNumber = None\<rparr>],
            oldLineNum + 1, newLineNum)
         else
           (results @ [\<lparr>type = Unchanged, text' = line,
                         oldLineNumber = Some oldLineNum, newLineNumber = Some newLineNum\<rparr>],
            oldLineNum + 1, newLineNum + 1)))"

fun computeLineDiff_lines ::
  "int \<Rightarrow> string list \<Rightarrow> DiffLine list \<times> int \<times> int \<Rightarrow> DiffLine list \<times> int \<times> int" where
  "computeLineDiff_lines operation [] st = st"
| "computeLineDiff_lines operation (line # rest) st =
     computeLineDiff_lines operation rest
       (if rest \<noteq> [] \<or> line \<noteq> [] then computeLineDiff_push operation line st else st)"

fun computeLineDiff_loop ::
  "char diff list \<Rightarrow> DiffLine list \<times> int \<times> int \<Rightarrow> DiffLine list \<times> int \<times> int" where
  "computeLineDiff_loop [] st = st"
| "computeLineDiff_loop ((operation, t) # diffs) st =
     computeLineDiff_loop diffs (computeLineDiff_lines operation (split_on newline t) st)"

definition computeLineDiff_results :: "char diff list \<Rightarrow> DiffLine list" where
  "computeLineDiff_results diffs = fst (computeLineDiff_loop diffs ([], 1, 1))"

definition computeLineDiff :: "string \<Rightarrow> string \<Rightarrow> DiffLine list option" where
  "computeLineDiff oldText newText = map_option computeLineDiff_results (diffLineMode oldText newText)"

text \<open>
  Which records carry a number on the old side and on the new side, and the invariant of
  the loops: the old-side numbers pushed so far are \<open>1, ..., oldLineNum - 1\<close> in
  order, the new-side numbers are \<open>1, ..., newLineNum - 1\<close>, and the other number of
  an added or removed record is absent.
\<close>

definition old_side :: "DiffLine \<Rightarrow> bool" where
  "old_side r = (DiffLine.type r = Removed \<or> DiffLine.type r = Unchanged)"

definition new_side :: "DiffLine \<Rightarrow> bool" where
  "new_side r = (DiffLine.type r = Added \<or> DiffLine.type r = Unchanged)"

definition is_added :: "DiffLine \<Rightarrow> bool" where
  "is_added r = (DiffLine.type r = Added)"

definition is_removed :: "DiffLine \<Rightarrow> bool" where
  "is_removed r = (DiffLine.type r = Removed)"

definition numbered_upto :: "DiffLine list \<times> int \<times> int \<Rightarrow> bool" where
  "numbered_upto st =
     (case st of (results, oldNum, newNum) \<Rightarrow>
        1 \<le> oldNum \<and> 1 \<le> newNum
        \<and> map oldLineNumber (filter old_side results) = map Some [1..oldNum - 1]
        \<and> map newLineNumber (filter new_side results) = map Some [1..newNum - 1]
        \<and> map oldLineNumber (filter is_added results)
            = replicate (length (filter is_added results)) None
        \<and> map newLineNumber (filter is_removed results)
            = replicate (length (filter is_removed results)) None)"

subsection \<open>formatUnifiedDiff\<close>

record unified_state =
  output' :: string
  oldLineNum :: int
  newLineNum :: int
  hunkStartOld :: int
  hunkStartNew :: int
  hunkLines :: "string list"

definition hunk_text :: "unified_state \<Rightarrow> string" where
  "hunk_text st =
     ''@@ -'' @ int_to_string (hunkStartOld st) @ '','' @ int_to_string (oldLineNum st - hunkStartOld st)
     @ '' +'' @ int_to_string (hunkStartNew st) @ '','' @ int_to_string (newLineNum st - hunkStartNew st)
     @ '' @@'' @ [newline]
     @ join [newline] (hunkLines st) @ [newline]"

definition formatUnifiedDiff_push :: "int \<Rightarrow> string \<Rightarrow> unified_state \<Rightarrow> unified_state" where
  "formatUnifiedDiff_push operation line st =
     (if operation = 1 then
        st\<lparr>hunkLines := hunkLines st @ [CHR ''+'' # line], newLineNum := newLineNum st + 1\<rparr>
      else if operation = - 1 then
        st\<lparr>hunkLines := hunkLines st @ [CHR ''-'' # line], oldLineNum := oldLineNum st + 1\<rparr>
      else
        (let st1 = (if hunkLines st \<noteq> []
                    then st\<lparr>output' := output' st @ hunk_text st, hunkLines := []\<rparr>
                    else st)
         in st1\<lparr>hunkStartOld := oldLineNum st1 + 1,
                hunkStartNew := newLineNum st1 + 1,
                oldLineNum := oldLineNum st1 + 1,
                newLineNum := newLineNum st1 + 1\<rparr>))"

fun formatUnifiedDiff_lines :: "int \<Rightarrow> string list \<Rightarrow> unified_state \<Rightarrow> unified_state" where
  "formatUnifiedDiff_lines operation [] st = st"
| "formatUnifiedDiff_lines operation (line # rest) st =
     formatUnifiedDiff_lines operation rest
       (if rest \<noteq> [] \<or> line \<noteq> [] then formatUnifiedDiff_push operation line st else st)"

fun formatUnifiedDiff_loop :: "char diff list \<Rightarrow> unified_state \<Rightarrow> unified_state" where
  "formatUnifiedDiff_loop [] st = st"
| "formatUnifiedDiff_loop ((operation, t) # diffs) st =
     formatUnifiedDiff_loop diffs (formatUnifiedDiff_lines operation (split_on newline t) st)"

definition formatUnifiedDiff_output :: "char diff list \<Rightarrow> string \<Rightarrow> string \<Rightarrow> string" where
  "formatUnifiedDiff_output diffs oldFile newFile =
     (let st = formatUnifiedDiff_loop diffs
                 \<lparr>output' = ''--- '' @ oldFile @ [newline] @ ''+++ '' @ newFile @ [newline],
                  oldLineNum = 1, newLineNum = 1, hunkStartOld = 1, hunkStartNew = 1,
                  hunkLines = []\<rparr>
      in if hunkLines st \<noteq> [] then output' st @ hunk_text st else output' st)"

definition formatUnifiedDiff :: "string \<Rightarrow> string \<Rightarrow> string \<Rightarrow> string \<Rightarrow> string option" where
  "formatUnifiedDiff oldText newText oldFile newFile =
     map_option (\<lambda>diffs. formatUnifiedDiff_output diffs oldFile newFile) (diffLineMode oldText newText)"


section \<open>JavaScript strings, regular expressions and numbers used by geometry.ts\<close>

text \<open>
  A character is a code unit below 256. \<open>is_space\<close> is the class \<open>\s\<close>, which is
  also what \<open>trim\<close> removes; \<open>is_line_terminator\<close> is what \<open>.\<close> does not match;
  \<open>is_coord_char\<close> is the class \<open>[-\d.]\<close>.
\<close>

definition is_space :: "char \<Rightarrow> bool" where
  "is_space c =
     (c = CHR 0x09 \<or> c = CHR 0x0A \<or> c = CHR 0x0B \<or> c = CHR 0x0C \<or> c = CHR 0x0D
      \<or> c = CHR 0x20 \<or> c = CHR 0xA0)"

definition is_line_terminator :: "char \<Rightarrow> bool" where
  "is_line_terminator c = (c = CHR 0x0A \<or> c = CHR 0x0D)"

definition is_digit :: "char \<Rightarrow> bool" where
  "is_digit c = (c \<in> set ''0123456789'')"

definition is_coord_char :: "char \<Rightarrow> bool" where
  "is_coord_char c = (c = CHR ''-'' \<or> is_digit c \<or> c = CHR ''.'')"

definition trim :: "string \<Rightarrow> string" where
  "trim s = rev (dropWhile is_space (rev (dropWhile is_space s)))"

text \<open>
  Under the flag \<open>i\<close> a letter of a keyword matches itself and its lower-case form;
  the keywords below are written in upper case.
\<close>

definition upper_ascii :: "char \<Rightarrow> char" where
  "upper_ascii c =
     (case index_of c ''abcdefghijklmnopqrstuvwxyz'' of
        Some k \<Rightarrow> ''ABCDEFGHIJKLMNOPQRSTUVWXYZ'' ! k
      | None \<Rightarrow> c)"

text \<open>\<open>strip_kw kw s\<close> matches the keyword at the start of \<open>s\<close> and returns the rest.\<close>

fun strip_kw :: "string \<Rightarrow> string \<Rightarrow> string option" where
  "strip_kw [] s = Some s"
| "strip_kw (k # ks) [] = None"
| "strip_kw (k # ks) (c # cs) = (if upper_ascii c = k then strip_kw ks cs else None)"

text \<open>\<open>after_open s\<close> matches \<open>\s*\(\<close> at the start of \<open>s\<close> and returns the rest.\<close>

definition after_open :: "string \<Rightarrow> string option" where
  "after_open s =
     (case dropWhile is_space s of
        [] \<Rightarrow> None
      | c # r \<Rightarrow> if c = CHR ''('' then Some r else None)"

text \<open>The test \<open>/^KW\s*\(/i\<close> that selects a branch.\<close>

definition starts_with_keyword :: "string \<Rightarrow> string \<Rightarrow> bool" where
  "starts_with_keyword kw s =
     (case strip_kw kw s of
        None \<Rightarrow> False
      | Some r \<Rightarrow> (case after_open r of None \<Rightarrow> False | Some b \<Rightarrow> True))"

text \<open>
  \<open>s.match(re)\<close> without the flag \<open>g\<close> tries the expression at every position from
  the left and returns the groups of the first match.
\<close>

fun regex_search :: "(string \<Rightarrow> 'a option) \<Rightarrow> string \<Rightarrow> 'a option" where
  "regex_search m [] = m []"
| "regex_search m (c # cs) =
     (case m (c # cs) of
        Some r \<Rightarrow> Some r
      | None \<Rightarrow> regex_search m cs)"

text \<open>
  \<open>/KW\s*\((.*?)\)/i\<close> at one position: the group is the shortest run of characters
  other than line terminators that is followed by a closing parenthesis, that is, the
  text up to the first closing parenthesis.
\<close>

definition in_body :: "char \<Rightarrow> bool" where
  "in_body c = (c \<noteq> CHR '')'' \<and> \<not> is_line_terminator c)"

definition body_at :: "string \<Rightarrow> string \<Rightarrow> string option" where
  "body_at kw s =
     (case strip_kw kw s of
        None \<Rightarrow> None
      | Some r \<Rightarrow>
          (case after_open r of
             None \<Rightarrow> None
           | Some b \<Rightarrow>
               (case dropWhile in_body b of
                  [] \<Rightarrow> None
                | c # rest \<Rightarrow> if c = CHR '')'' then Some (takeWhile in_body b) else None)))"

definition match_body :: "string \<Rightarrow> string \<Rightarrow> string option" where
  "match_body kw s = regex_search (body_at kw) s"

text \<open>
  \<open>/POINT\s*\(\s*([-\d.]+)\s+([-\d.]+)\s*\)/i\<close> at one position, returning the two
  groups.
\<close>

definition point_at :: "string \<Rightarrow> (string \<times> string) option" where
  "point_at s =
     (case strip_kw ''POINT'' s of
        None \<Rightarrow> None
      | Some r \<Rightarrow>
          (case after_open r of
             None \<Rightarrow> None
           | Some b \<Rightarrow>
               (let b1 = dropWhile is_space b;
                    g1 = takeWhile is_coord_char b1;
                    r1 = dropWhile is_coord_char b1;
                    gap = takeWhile is_space r1;
                    r2 = dropWhile is_space r1;
                    g2 = takeWhile is_coord_char r2;
                    r3 = dropWhile is_space (dropWhile is_coord_char r2)
                in if g1 = [] then None
                   else if gap = [] then None
                   else if g2 = [] then None
                   else (case r3 of
                           [] \<Rightarrow> None
                         | c # rest \<Rightarrow> if c = CHR '')'' then Some (g1, g2) else None))))"

text \<open>
  \<open>s.split(re)\<close> for an expression that matches no empty string: \<open>sep t\<close> is the
  length of the match of \<open>re\<close> at the start of \<open>t\<close>, or 0 when there is none. The
  second argument counts the characters of a separator still to skip, the third holds
  the piece read so far, reversed.
\<close>

fun split_re :: "(string \<Rightarrow> nat) \<Rightarrow> nat \<Rightarrow> string \<Rightarrow> string \<Rightarrow> string list" where
  "split_re sep k acc [] = [rev acc]"
| "split_re sep (Suc k) acc (c # cs) = split_re sep k acc cs"
| "split_re sep 0 acc (c # cs) =
     (case sep (c # cs) of
        0 \<Rightarrow> split_re sep 0 (c # acc) cs
      | Suc n \<Rightarrow> rev acc # split_re sep n [] cs)"

text \<open>The separators: \<open>/\s+/\<close>, \<open>/\),\s*\(/\<close>, \<open>/\),\s*\(|,\s*(?=\d)/\<close> and
  \<open>/\)\),\s*\(\(/\<close>.\<close>

definition spaces_sep :: "string \<Rightarrow> nat" where
  "spaces_sep t = length (takeWhile is_space t)"

definition ring_sep :: "string \<Rightarrow> nat" where
  "ring_sep t =
     (if take 2 t = ''),'' then
        (case dropWhile is_space (drop 2 t) of
           [] \<Rightarrow> 0
         | c # rest \<Rightarrow>
             if c = CHR ''('' then 2 + length (takeWhile is_space (drop 2 t)) + 1 else 0)
      else 0)"

definition multipoint_sep :: "string \<Rightarrow> nat" where
  "multipoint_sep t =
     (if ring_sep t > 0 then ring_sep t
      else if take 1 t = '','' then
        (case dropWhile is_space (drop 1 t) of
           [] \<Rightarrow> 0
         | c # rest \<Rightarrow>
             if is_digit c then 1 + length (takeWhile is_space (drop 1 t)) else 0)
      else 0)"

definition polygon_sep :: "string \<Rightarrow> nat" where
  "polygon_sep t =
     (if take 3 t = '')),'' then
        (if take 2 (dropWhile is_space (drop 3 t)) = ''(('' then
           3 + length (takeWhile is_space (drop 3 t)) + 2
         else 0)
      else 0)"

text \<open>\<open>s.replace(/[()]/g, '')\<close> and \<open>s.replace(/^\(|\)$/g, '')\<close>.\<close>

definition remove_parens :: "string \<Rightarrow> string" where
  "remove_parens s = filter (\<lambda>c. c \<noteq> CHR ''('' \<and> c \<noteq> CHR '')'') s"

definition strip_outer_parens :: "string \<Rightarrow> string" where
  "strip_outer_parens s =
     (let s1 = (if take 1 s = ''('' then drop 1 s else s)
      in if s1 = [] then s1
         else if last s1 = CHR '')'' then butlast s1
         else s1)"

subsection \<open>Numbers\<close>

text \<open>
  A JavaScript number is modelled as NaN, an infinity, or the exact decimal
  \<open>m \<times> 10\<^sup>e\<close> written \<open>Finite m e\<close>, where \<open>m\<close> does not end in the digit 0
  (and \<open>e = 0\<close> when \<open>m = 0\<close>): the decimal that the number prints as. This is
  what JavaScript computes for a literal of at most 15 significant digits within the
  range of a double. Outside it the model keeps every digit where JavaScript rounds to
  the nearest double, overflows to Infinity or underflows to 0; that rounding and the sign
  of zero are not modelled.
\<close>

datatype jsnum = NaN | PosInfinity | NegInfinity | Finite int int

definition digit_value :: "char \<Rightarrow> nat" where
  "digit_value c = (case index_of c ''0123456789'' of Some k \<Rightarrow> k | None \<Rightarrow> 0)"

definition digits_value :: "string \<Rightarrow> nat" where
  "digits_value ds = foldl (\<lambda>a c. 10 * a + digit_value c) 0 ds"

definition make_number :: "bool \<Rightarrow> string \<Rightarrow> int \<Rightarrow> jsnum" where
  "make_number negative ds e =
     (let k = length (takeWhile (\<lambda>c. c = CHR ''0'') (rev ds));
          sig = take (length ds - k) ds
      in if sig = [] then Finite 0 0
         else Finite (if negative then - int (digits_value sig) else int (digits_value sig))
                (e + int k))"

text \<open>The optional exponent part \<open>e\<close> or \<open>E\<close>, sign, digits at the start of \<open>r\<close>.\<close>

definition exponent_part :: "string \<Rightarrow> int" where
  "exponent_part r =
     (case r of
        [] \<Rightarrow> 0
      | c # r1 \<Rightarrow>
          if c = CHR ''e'' \<or> c = CHR ''E'' then
            (let negative = (take 1 r1 = ''-'');
                 r2 = (if take 1 r1 = ''-'' \<or> take 1 r1 = ''+'' then drop 1 r1 else r1);
                 ds = takeWhile is_digit r2
             in if ds = [] then 0
                else if negative then - int (digits_value ds) else int (digits_value ds))
          else 0)"

text \<open>
  \<open>parseFloat\<close>: leading white space is skipped and the longest prefix that is a
  decimal literal is read; with no such prefix the result is NaN.
\<close>

definition parseFloat :: "string \<Rightarrow> jsnum" where
  "parseFloat s =
     (let t = dropWhile is_space s;
          negative = (take 1 t = ''-'');
          u = (if take 1 t = ''-'' \<or> take 1 t = ''+'' then drop 1 t else t)
      in if take 8 u = ''Infinity'' then (if negative then NegInfinity else PosInfinity)
         else
           (let ip = takeWhile is_digit u;
                r = dropWhile is_digit u;
                fp = (if take 1 r = ''.'' then takeWhile is_digit (drop 1 r) else []);
                r' = (if take 1 r = ''.'' then dropWhile is_digit (drop 1 r) else r)
            in if ip = [] \<and> fp = [] then NaN
               else make_number negative (ip @ fp) (exponent_part r' - int (length fp))))"

text \<open>
  \<open>Number.prototype.toString\<close>, which a template literal applies: with \<open>k\<close> digits and
  the decimal point after the \<open>n\<close>-th digit, plain notation for \<open>-6 < n \<le> 21\<close> and
  exponent notation otherwise.
\<close>

definition positive_to_string :: "nat \<Rightarrow> int \<Rightarrow> string" where
  "positive_to_string m e =
     (let ds = digits_of m;
          k = int (length ds);
          n = k + e
      in if k \<le> n \<and> n \<le> 21 then ds @ replicate (nat (n - k)) (CHR ''0'')
         else if 0 < n \<and> n \<le> 21 then take (nat n) ds @ ''.'' @ drop (nat n) ds
         else if - 6 < n \<and> n \<le> 0 then ''0.'' @ replicate (nat (- n)) (CHR ''0'') @ ds
         else
           (let ex = (if n - 1 < 0 then CHR ''-'' # digits_of (nat (1 - n))
                      else CHR ''+'' # digits_of (nat (n - 1)))
            in if k = 1 then ds @ ''e'' @ ex
               else take 1 ds @ ''.'' @ drop 1 ds @ ''e'' @ ex))"

fun number_to_string :: "jsnum \<Rightarrow> string" where
  "number_to_string NaN = ''NaN''"
| "number_to_string PosInfinity = ''Infinity''"
| "number_to_string NegInfinity = ''-Infinity''"
| "number_to_string (Finite m e) =
     (if m = 0 then ''0''
      else if m < 0 then CHR ''-'' # positive_to_string (nat (- m)) e
      else positive_to_string (nat m) e)"


section \<open>geometry.ts\<close>

text \<open>
  A GeoJSON geometry object: its \<open>type\<close> and its \<open>coordinates\<close> (or
  \<open>geometries\<close>). A position is the array of its numbers. \<open>Unsupported t\<close> is an
  object whose \<open>type\<close> is another string \<open>t\<close>.
\<close>

datatype geometry =
    Point "jsnum list"
  | LineString "jsnum list list"
  | Polygon "jsnum list list list"
  | MultiPoint "jsnum list list"
  | MultiLineString "jsnum list list list"
  | MultiPolygon "jsnum list list list list"
  | GeometryCollection "geometry list"
  | Unsupported string

datatype error = Error string

subsection \<open>wktToGeoJSONExtended\<close>

text \<open>
  The callback of the maps over coordinate tokens: \<open>[x, y] = p.trim().split(/\s+/)\<close>
  and the result \<open>[parseFloat(y), parseFloat(x)]\<close>. A missing \<open>y\<close> is
  \<open>undefined\<close>, which \<open>parseFloat\<close> turns into NaN.
\<close>

definition coord_of_token :: "string \<Rightarrow> jsnum list" where
  "coord_of_token p =
     (case split_re spaces_sep 0 [] (trim p) of
        [] \<Rightarrow> [NaN, NaN]
      | [x] \<Rightarrow> [NaN, parseFloat x]
      | x # y # rest \<Rightarrow> [parseFloat y, parseFloat x])"

definition ring_of_text :: "string \<Rightarrow> jsnum list list" where
  "ring_of_text ring = map coord_of_token (split_on (CHR '','') (remove_parens ring))"

text \<open>
  Each branch of the function: \<open>None\<close> when the test of the branch fails or its
  extraction finds no match, so that control falls through to the next branch.
\<close>

definition point_branch :: "string \<Rightarrow> geometry option" where
  "point_branch trimmed =
     (if starts_with_keyword ''POINT'' trimmed then
        (case regex_search point_at trimmed of
           None \<Rightarrow> None
         | Some (c1, c2) \<Rightarrow> Some (Point [parseFloat c2, parseFloat c1]))
      else None)"

definition linestring_branch :: "string \<Rightarrow> geometry option" where
  "linestring_branch trimmed =
     (if starts_with_keyword ''LINESTRING'' trimmed then
        (case match_body ''LINESTRING'' trimmed of
           None \<Rightarrow> None
         | Some body \<Rightarrow> Some (LineString (map coord_of_token (split_on (CHR '','') body))))
      else None)"

definition polygon_branch :: "string \<Rightarrow> geometry option" where
  "polygon_branch trimmed =
     (if starts_with_keyword ''POLYGON'' trimmed then
        (case match_body ''POLYGON'' trimmed of
           None \<Rightarrow> None
         | Some body \<Rightarrow> Some (Polygon (map ring_of_text (split_re ring_sep 0 [] body))))
      else None)"

definition multipoint_branch :: "string \<Rightarrow> geometry option" where
  "multipoint_branch trimmed =
     (if starts_with_keyword ''MULTIPOINT'' trimmed then
        (case match_body ''MULTIPOINT'' trimmed of
           None \<Rightarrow> None
         | Some body \<Rightarrow>
             Some (MultiPoint (map (\<lambda>p. coord_of_token (remove_parens p))
                                 (split_re multipoint_sep 0 [] body))))
      else None)"

definition multilinestring_branch :: "string \<Rightarrow> geometry option" where
  "multilinestring_branch trimmed =
     (if starts_with_keyword ''MULTILINESTRING'' trimmed then
        (case match_body ''MULTILINESTRING'' trimmed of
           None \<Rightarrow> None
         | Some body \<Rightarrow>
             Some (MultiLineString (map ring_of_text (split_re ring_sep 0 [] body))))
      else None)"

definition multipolygon_branch :: "string \<Rightarrow> geometry option" where
  "multipolygon_branch trimmed =
     (if starts_with_keyword ''MULTIPOLYGON'' trimmed then
        (case match_body ''MULTIPOLYGON'' trimmed of
           None \<Rightarrow> None
         | Some body \<Rightarrow>
             Some (MultiPolygon
                     (map (\<lambda>polygon. map ring_of_text
                                        (split_re ring_sep 0 [] (strip_outer_parens polygon)))
                          (split_re polygon_sep 0 [] body))))
      else None)"

text \<open>
  The loop of the GeometryCollection branch, over the characters of the group from the
  last to the first: \<open>chars\<close> is what is still to read (reversed), \<open>parse\<close> is the
  recursive call, and an error it throws is caught and the piece skipped.
\<close>

fun collection_loop ::
  "(string \<Rightarrow> error + geometry) \<Rightarrow> string \<Rightarrow> int \<Rightarrow> string \<Rightarrow> geometry list \<Rightarrow> geometry list" where
  "collection_loop parse [] depth current geoms = geoms"
| "collection_loop parse (char # chars) depth current geoms =
     (let depth1 = (if char = CHR '')'' then depth + 1 else depth);
          depth2 = (if char = CHR ''('' then depth1 - 1 else depth1);
          current1 = char # current
      in if depth2 = 0 \<and> trim current1 \<noteq> [] then
           collection_loop parse chars depth2 []
             (case parse (trim current1) of
                Inl e \<Rightarrow> geoms
              | Inr geom \<Rightarrow> geom # geoms)
         else collection_loop parse chars depth2 current1 geoms)"

text \<open>
  The recursive call of the loop only reads pieces of the text it walks over, which is
  what makes the recursion of \<open>wktToGeoJSONExtended\<close> end.
\<close>

lemma length_trim: "length (trim s) \<le> length s"
proof -
  have "length (trim s) = length (dropWhile is_space (rev (dropWhile is_space s)))"
    by (simp add: trim_def)
  also have "\<dots> \<le> length (rev (dropWhile is_space s))"
    by (rule length_dropWhile_le)
  also have "\<dots> = length (dropWhile is_space s)"
    by simp
  also have "\<dots> \<le> length s"
    by (rule length_dropWhile_le)
  finally show ?thesis .
qed

lemma collection_loop_cong [fundef_cong]:
  assumes "chars = chars'" "depth = depth'" "current = current'" "geoms = geoms'"
    and "\<And>s. length s \<le> length chars' + length current' \<Longrightarrow> parse s = parse' s"
  shows "collection_loop parse chars depth current geoms
         = collection_loop parse' chars' depth' current' geoms'"
  unfolding assms(1-4) using assms(5)
proof (induction chars' arbitrary: depth' current' geoms')
  case Nil
  show ?case by simp
next
  case (Cons c cs)
  have len: "length (trim (c # current')) \<le> length (c # cs) + length current'"
    using length_trim [of "c # current'"] by simp
  have here: "parse (trim (c # current')) = parse' (trim (c # current'))"
    by (rule Cons.prems) (rule len)
  have rest1: "collection_loop parse cs d [] g = collection_loop parse' cs d [] g" for d g
    by (rule Cons.IH) (simp add: Cons.prems)
  have rest2: "collection_loop parse cs d (c # current') g
               = collection_loop parse' cs d (c # current') g" for d g
    by (rule Cons.IH) (simp add: Cons.prems)
  show ?case by (simp add: Let_def here rest1 rest2)
qed

lemma strip_kw_length: "strip_kw kw s = Some r \<Longrightarrow> length r \<le> length s"
  by (induction kw s rule: strip_kw.induct) (auto split: if_splits)

lemma after_open_length: "after_open s = Some r \<Longrightarrow> length r < length s"
proof -
  assume a: "after_open s = Some r"
  then obtain c where "dropWhile is_space s = c # r"
    by (auto simp: after_open_def split: list.splits if_splits)
  then have "Suc (length r) = length (dropWhile is_space s)" by simp
  also have "\<dots> \<le> length s" by (rule length_dropWhile_le)
  finally show ?thesis by simp
qed

lemma body_at_length: "body_at kw s = Some b \<Longrightarrow> length b < length s"
proof -
  assume a: "body_at kw s = Some b"
  then obtain r r' where r: "strip_kw kw s = Some r" and r': "after_open r = Some r'"
    and b: "b = takeWhile in_body r'"
    by (auto simp: body_at_def split: option.splits list.splits if_splits)
  have "length b \<le> length r'" unfolding b by (rule length_takeWhile_le)
  also have "\<dots> < length r" using r' by (rule after_open_length)
  also have "\<dots> \<le> length s" using r by (rule strip_kw_length)
  finally show ?thesis .
qed

lemma regex_search_length:
  assumes "\<And>t b. m t = Some b \<Longrightarrow> length b < length t"
  shows "regex_search m s = Some b \<Longrightarrow> length b < length s"
proof (induction s)
  case Nil
  then show ?case using assms [of "[]" b] by simp
next
  case (Cons c cs)
  show ?case
  proof (cases "m (c # cs)")
    case None
    with Cons show ?thesis by simp
  next
    case (Some r)
    with Cons.prems have "m (c # cs) = Some b" by simp
    then show ?thesis by (rule assms)
  qed
qed

lemma match_body_length: "match_body kw s = Some b \<Longrightarrow> length b < length s"
  unfolding match_body_def by (rule regex_search_length) (rule body_at_length)

text \<open>
  The function itself. The branches are tried in the order of the source; when none
  returns, the error thrown at the end is caught by the \<open>catch\<close> around the body and
  thrown again with the prefix "Invalid WKT format: ".
\<close>

function wktToGeoJSONExtended :: "string \<Rightarrow> error + geometry" where
  "wktToGeoJSONExtended wkt =
     (let trimmed = trim wkt in
      case point_branch trimmed of Some g \<Rightarrow> Inr g | None \<Rightarrow>
      (case linestring_branch trimmed of Some g \<Rightarrow> Inr g | None \<Rightarrow>
      (case polygon_branch trimmed of Some g \<Rightarrow> Inr g | None \<Rightarrow>
      (case multipoint_branch trimmed of Some g \<Rightarrow> Inr g | None \<Rightarrow>
      (case multilinestring_branch trimmed of Some g \<Rightarrow> Inr g | None \<Rightarrow>
      (case multipolygon_branch trimmed of Some g \<Rightarrow> Inr g | None \<Rightarrow>
      (case (if starts_with_keyword ''GEOMETRYCOLLECTION'' trimmed
             then match_body ''GEOMETRYCOLLECTION'' trimmed else None) of
         Some body \<Rightarrow>
           Inr (GeometryCollection (collection_loop wktToGeoJSONExtended (rev body) 0 [] []))
       | None \<Rightarrow>
           Inl (Error (''Invalid WKT format: ''
                       @ ''Unsupported WKT geometry type or invalid format'')))))))))"
  by pat_completeness auto
termination
proof (relation "measure length")
  show "wf (measure length)" by simp
next
  fix wkt trimmed body :: string and s :: string
  assume t: "trimmed = trim wkt"
    and b: "(if starts_with_keyword ''GEOMETRYCOLLECTION'' trimmed
             then match_body ''GEOMETRYCOLLECTION'' trimmed else None) = Some body"
    and s: "length s \<le> length (rev body) + length []"
  from b have "match_body ''GEOMETRYCOLLECTION'' trimmed = Some body"
    by (simp split: if_splits)
  then have "length body < length trimmed" by (rule match_body_length)
  also have "\<dots> \<le> length wkt" unfolding t by (rule length_trim)
  finally have "length body < length wkt" .
  with s show "(s, wkt) \<in> measure length" by simp
qed

declare wktToGeoJSONExtended.simps [simp del]

subsection \<open>geoJSONToWKTExtended\<close>

text \<open>
  \<open>[lon, lat] = position\<close> followed by \<open>`${lon} ${lat}`\<close>: the first two entries of
  the array, and "undefined" for an entry the array does not have.
\<close>

definition entry_text :: "jsnum list \<Rightarrow> nat \<Rightarrow> string" where
  "entry_text position i =
     (if i < length position then number_to_string (position ! i) else ''undefined'')"

definition position_text :: "jsnum list \<Rightarrow> string" where
  "position_text position = entry_text position 0 @ '' '' @ entry_text position 1"

definition ring_text :: "jsnum list list \<Rightarrow> string" where
  "ring_text ring = ''('' @ join '', '' (map position_text ring) @ '')''"

text \<open>The texts of the members, or the error of the first member that throws.\<close>

fun all_texts :: "(error + string) list \<Rightarrow> error + string list" where
  "all_texts [] = Inr []"
| "all_texts (Inl e # rs) = Inl e"
| "all_texts (Inr t # rs) = (case all_texts rs of Inl e \<Rightarrow> Inl e | Inr ts \<Rightarrow> Inr (t # ts))"

fun geoJSONToWKTExtended :: "geometry \<Rightarrow> error + string" where
  "geoJSONToWKTExtended (Point position) =
     Inr (''POINT('' @ position_text position @ '')'')"
| "geoJSONToWKTExtended (LineString coordinates) =
     Inr (''LINESTRING('' @ join '', '' (map position_text coordinates) @ '')'')"
| "geoJSONToWKTExtended (Polygon coordinates) =
     Inr (''POLYGON('' @ join '', '' (map ring_text coordinates) @ '')'')"
| "geoJSONToWKTExtended (MultiPoint coordinates) =
     Inr (''MULTIPOINT('' @ join '', '' (map position_text coordinates) @ '')'')"
| "geoJSONToWKTExtended (MultiLineString coordinates) =
     Inr (''MULTILINESTRING('' @ join '', '' (map ring_text coordinates) @ '')'')"
| "geoJSONToWKTExtended (MultiPolygon coordinates) =
     Inr (''MULTIPOLYGON(''
          @ join '', '' (map (\<lambda>polygon. ''('' @ join '', '' (map ring_text polygon) @ '')'')
                            coordinates)
          @ '')'')"
| "geoJSONToWKTExtended (GeometryCollection geometries) =
     (case all_texts (map geoJSONToWKTExtended geometries) of
        Inl (Error message) \<Rightarrow> Inl (Error (''Invalid GeoJSON format: '' @ message))
      | Inr texts \<Rightarrow> Inr (''GEOMETRYCOLLECTION('' @ join '', '' texts @ '')''))"
| "geoJSONToWKTExtended (Unsupported t) =
     Inl (Error (''Invalid GeoJSON format: '' @ ''Unsupported GeoJSON geometry type: '' @ t))"


subsection \<open>When the conversion fails\<close>

text \<open>
  The wkt_keywords of the seven branches, and whether the extraction of a branch finds a
  match in the trimmed text: the expression with two groups for a point, the expression
  with one group for the others.
\<close>

definition wkt_keywords :: "string list" where
  "wkt_keywords = [''POINT'', ''LINESTRING'', ''POLYGON'', ''MULTIPOINT'', ''MULTILINESTRING'',
               ''MULTIPOLYGON'', ''GEOMETRYCOLLECTION'']"

definition extraction_matches :: "string \<Rightarrow> string \<Rightarrow> bool" where
  "extraction_matches kw s =
     (if kw = ''POINT'' then regex_search point_at s \<noteq> None else match_body kw s \<noteq> None)"


section \<open>Properties of the diff functions\<close>

lemma diffLineMode_example:
  "diffLineMode ''a\<newline>b\<newline>c'' ''a\<newline>x\<newline>c''
     = Some [(0, ''a\<newline>''), (- 1, ''b\<newline>''), (1, ''x\<newline>''), (0, ''c'')]"
  by (simp add: diffLineMode_def diff_linesToChars_def newline_def diff_main_def
        diff_commonSuffix_def diff_compute_def diff_charsToLines_def Let_def)

lemma diffLineMode_empty: "diffLineMode [] [] = Some []"
  by (simp add: diffLineMode_def diff_linesToChars_def diff_main_def diff_charsToLines_def)

text \<open>
  C5: for the old text "a, b, c" and the new text "a, x, c" (one per line),
  \<open>computeLineDiff\<close> returns exactly four records: unchanged "a" numbered 1 and 1,
  removed "b" with old number 2, added "x" with new number 2, unchanged "c" numbered 3
  and 3.
\<close>

theorem computeLineDiff_example:
  "computeLineDiff ''a\<newline>b\<newline>c'' ''a\<newline>x\<newline>c'' = Some
     [\<lparr>type = Unchanged, text' = ''a'', oldLineNumber = Some 1, newLineNumber = Some 1\<rparr>,
      \<lparr>type = Removed, text' = ''b'', oldLineNumber = Some 2, newLineNumber = None\<rparr>,
      \<lparr>type = Added, text' = ''x'', oldLineNumber = None, newLineNumber = Some 2\<rparr>,
      \<lparr>type = Unchanged, text' = ''c'', oldLineNumber = Some 3, newLineNumber = Some 3\<rparr>]"
  by (simp add: computeLineDiff_def diffLineMode_example computeLineDiff_results_def
        computeLineDiff_push_def newline_def)

text \<open>
  C6: for the same two texts the unified diff is the two file lines followed by exactly
  one hunk, whose header reads \<open>@@ -2,1 +2,1 @@\<close>: start and count come from the
  running old and new line counters.
\<close>

theorem formatUnifiedDiff_example:
  "formatUnifiedDiff ''a\<newline>b\<newline>c'' ''a\<newline>x\<newline>c'' oldFile newFile = Some
     (''--- '' @ oldFile @ ''\<newline>+++ '' @ newFile
      @ ''\<newline>@@ -2,1 +2,1 @@\<newline>-b\<newline>+x\<newline>'')"
  by (simp add: formatUnifiedDiff_def diffLineMode_example formatUnifiedDiff_output_def
        formatUnifiedDiff_push_def hunk_text_def int_to_string_def digits_of.simps
        newline_def Let_def)

text \<open>
  C9: when the old and the new text are both empty, \<open>computeDiff\<close> in each of its
  three modes and \<open>computeLineDiff\<close> return the empty list of records; nothing is
  thrown.
\<close>

theorem diff_of_empty_texts:
  "computeDiff [] [] Line_mode = Some []
   \<and> computeDiff [] [] Word_mode = Some []
   \<and> computeDiff [] [] Char_mode = Some []
   \<and> computeLineDiff [] [] = Some []"
  by (simp add: computeDiff_def computeLineDiff_def diffLineMode_empty diff_main_def
        computeDiff_results_def computeLineDiff_results_def)

lemma upto_snoc: "(1::int) \<le> n \<Longrightarrow> [1..n] = [1..n - 1] @ [n]"
  using upto_rec2 [of 1 n] by simp

lemma push_numbered:
  "numbered_upto st \<Longrightarrow> numbered_upto (computeLineDiff_push operation line st)"
  by (cases st)
     (auto simp: numbered_upto_def computeLineDiff_push_def old_side_def new_side_def
        is_added_def is_removed_def upto_snoc replicate_append_same)

lemma lines_numbered:
  "numbered_upto st \<Longrightarrow> numbered_upto (computeLineDiff_lines operation lines st)"
  by (induction lines arbitrary: st) (simp_all add: push_numbered)

lemma loop_numbered:
  "numbered_upto st \<Longrightarrow> numbered_upto (computeLineDiff_loop diffs st)"
proof (induction diffs arbitrary: st)
  case Nil
  then show ?case by simp
next
  case (Cons d diffs)
  obtain operation t where d: "d = (operation, t)" by (cases d)
  from Cons.prems have "numbered_upto (computeLineDiff_lines operation (split_on newline t) st)"
    by (rule lines_numbered)
  then show ?case unfolding d by (simp add: Cons.IH)
qed

lemma results_numbered:
  "\<exists>a b. numbered_upto (computeLineDiff_results diffs, a, b)"
proof -
  have "numbered_upto ([], 1, 1)" by (simp add: numbered_upto_def)
  then have "numbered_upto (computeLineDiff_loop diffs ([], 1, 1))" by (rule loop_numbered)
  then show ?thesis
    by (cases "computeLineDiff_loop diffs ([], 1, 1)") (auto simp: computeLineDiff_results_def)
qed

lemma numbered_upto_length:
  assumes "numbered_upto (rs, a, b)"
  shows "map oldLineNumber (filter old_side rs) = map Some [1..int (length (filter old_side rs))]"
    and "map newLineNumber (filter new_side rs) = map Some [1..int (length (filter new_side rs))]"
proof -
  from assms have a: "1 \<le> a" and m: "map oldLineNumber (filter old_side rs) = map Some [1..a - 1]"
    by (simp_all add: numbered_upto_def)
  from m have "length (filter old_side rs) = length [1..a - 1]"
    by (metis length_map)
  with a have "int (length (filter old_side rs)) = a - 1" by simp
  with m show "map oldLineNumber (filter old_side rs) = map Some [1..int (length (filter old_side rs))]"
    by simp
  from assms have b: "1 \<le> b" and m: "map newLineNumber (filter new_side rs) = map Some [1..b - 1]"
    by (simp_all add: numbered_upto_def)
  from m have "length (filter new_side rs) = length [1..b - 1]"
    by (metis length_map)
  with b have "int (length (filter new_side rs)) = b - 1" by simp
  with m show "map newLineNumber (filter new_side rs) = map Some [1..int (length (filter new_side rs))]"
    by simp
qed

text \<open>
  C10: whatever operations the diff library returns, the records of
  \<open>computeLineDiff\<close> read in output order carry the old line numbers 1, 2, 3, ...
  on the removed and unchanged records and the new line numbers 1, 2, 3, ... on the added
  and unchanged records, without gap or repeat; an added record has no old line number
  and a removed record has no new line number.
\<close>

theorem computeLineDiff_line_numbers:
  "map oldLineNumber (filter old_side (computeLineDiff_results diffs))
     = map Some [1..int (length (filter old_side (computeLineDiff_results diffs)))]
   \<and> map newLineNumber (filter new_side (computeLineDiff_results diffs))
     = map Some [1..int (length (filter new_side (computeLineDiff_results diffs)))]
   \<and> map oldLineNumber (filter is_added (computeLineDiff_results diffs))
     = replicate (length (filter is_added (computeLineDiff_results diffs))) None
   \<and> map newLineNumber (filter is_removed (computeLineDiff_results diffs))
     = replicate (length (filter is_removed (computeLineDiff_results diffs))) None"
proof -
  obtain a b where n: "numbered_upto (computeLineDiff_results diffs, a, b)"
    using results_numbered by blast
  from numbered_upto_length [OF n] n show ?thesis
    by (simp add: numbered_upto_def)
qed



section \<open>Properties of the geometry functions\<close>

text \<open>The definitions that the evaluation of a concrete text unfolds.\<close>

lemmas wkt_eval =
  trim_def is_space_def is_line_terminator_def is_digit_def is_coord_char_def upper_ascii_def
  after_open_def starts_with_keyword_def in_body_def body_at_def match_body_def point_at_def
  spaces_sep_def ring_sep_def multipoint_sep_def polygon_sep_def remove_parens_def
  strip_outer_parens_def digit_value_def digits_value_def make_number_def exponent_part_def
  parseFloat_def coord_of_token_def ring_of_text_def point_branch_def linestring_branch_def
  polygon_branch_def multipoint_branch_def multilinestring_branch_def multipolygon_branch_def
  Let_def

lemmas wkt_print =
  entry_text_def position_text_def ring_text_def positive_to_string_def digits_of.simps

lemma strip_kw_take:
  "strip_kw kw s = Some r \<Longrightarrow> map upper_ascii (take (length kw) s) = kw"
  by (induction kw s rule: strip_kw.induct) (auto split: if_splits)

lemma starts_with_keyword_take:
  assumes "starts_with_keyword kw s"
  shows "map upper_ascii (take (length kw) s) = kw"
proof -
  from assms obtain r where "strip_kw kw s = Some r"
    by (auto simp: starts_with_keyword_def split: option.splits)
  then show ?thesis by (rule strip_kw_take)
qed

lemma keywords_distinct_prefixes:
  "list_all (\<lambda>a. list_all (\<lambda>b. a = b \<or> take (min (length a) (length b)) a
                                          \<noteq> take (min (length a) (length b)) b)
                        wkt_keywords) wkt_keywords"
  unfolding wkt_keywords_def by simp

lemma keywords_no_prefix:
  "a \<in> set wkt_keywords \<Longrightarrow> b \<in> set wkt_keywords
   \<Longrightarrow> take (min (length a) (length b)) a = take (min (length a) (length b)) b \<Longrightarrow> a = b"
  using keywords_distinct_prefixes unfolding list_all_iff by blast

lemma recognised_unique:
  assumes a: "starts_with_keyword a s" and b: "starts_with_keyword b s"
    and ka: "a \<in> set wkt_keywords" and kb: "b \<in> set wkt_keywords"
  shows "a = b"
proof -
  let ?n = "min (length a) (length b)"
  have "take ?n a = take ?n (map upper_ascii (take (length a) s))"
    using starts_with_keyword_take [OF a] by simp
  also have "\<dots> = map upper_ascii (take ?n s)"
    by (simp add: take_map min.commute)
  also have "\<dots> = take ?n (map upper_ascii (take (length b) s))"
    by (simp add: take_map)
  also have "\<dots> = take ?n b"
    using starts_with_keyword_take [OF b] by simp
  finally show ?thesis using ka kb by (rule keywords_no_prefix [rotated 2])
qed

lemma point_branch_None:
  "(point_branch t = None) = (\<not> (starts_with_keyword ''POINT'' t \<and> extraction_matches ''POINT'' t))"
  by (simp add: point_branch_def extraction_matches_def split: option.splits)

lemma linestring_branch_None:
  "(linestring_branch t = None)
   = (\<not> (starts_with_keyword ''LINESTRING'' t \<and> extraction_matches ''LINESTRING'' t))"
  by (simp add: linestring_branch_def extraction_matches_def split: option.splits)

lemma polygon_branch_None:
  "(polygon_branch t = None)
   = (\<not> (starts_with_keyword ''POLYGON'' t \<and> extraction_matches ''POLYGON'' t))"
  by (simp add: polygon_branch_def extraction_matches_def split: option.splits)

lemma multipoint_branch_None:
  "(multipoint_branch t = None)
   = (\<not> (starts_with_keyword ''MULTIPOINT'' t \<and> extraction_matches ''MULTIPOINT'' t))"
  by (simp add: multipoint_branch_def extraction_matches_def split: option.splits)

lemma multilinestring_branch_None:
  "(multilinestring_branch t = None)
   = (\<not> (starts_with_keyword ''MULTILINESTRING'' t \<and> extraction_matches ''MULTILINESTRING'' t))"
  by (simp add: multilinestring_branch_def extraction_matches_def split: option.splits)

lemma multipolygon_branch_None:
  "(multipolygon_branch t = None)
   = (\<not> (starts_with_keyword ''MULTIPOLYGON'' t \<and> extraction_matches ''MULTIPOLYGON'' t))"
  by (simp add: multipolygon_branch_def extraction_matches_def split: option.splits)

lemma collection_branch_None:
  "((if starts_with_keyword ''GEOMETRYCOLLECTION'' t
     then match_body ''GEOMETRYCOLLECTION'' t else None) = None)
   = (\<not> (starts_with_keyword ''GEOMETRYCOLLECTION'' t
          \<and> extraction_matches ''GEOMETRYCOLLECTION'' t))"
  by (simp add: extraction_matches_def)

lemmas branch_None =
  point_branch_None linestring_branch_None polygon_branch_None multipoint_branch_None
  multilinestring_branch_None multipolygon_branch_None collection_branch_None

lemma wkt_error_iff_no_branch:
  "(wktToGeoJSONExtended wkt
      = Inl (Error ''Invalid WKT format: Unsupported WKT geometry type or invalid format''))
   = (point_branch (trim wkt) = None \<and> linestring_branch (trim wkt) = None
      \<and> polygon_branch (trim wkt) = None \<and> multipoint_branch (trim wkt) = None
      \<and> multilinestring_branch (trim wkt) = None \<and> multipolygon_branch (trim wkt) = None
      \<and> (if starts_with_keyword ''GEOMETRYCOLLECTION'' (trim wkt)
          then match_body ''GEOMETRYCOLLECTION'' (trim wkt) else None) = None)"
  by (simp only: wktToGeoJSONExtended.simps [of wkt] Let_def)
     (simp split: option.splits)

lemma wkt_error_iff_all:
  "(wktToGeoJSONExtended wkt
      = Inl (Error ''Invalid WKT format: Unsupported WKT geometry type or invalid format''))
   = (\<forall>kw \<in> set wkt_keywords.
        \<not> (starts_with_keyword kw (trim wkt) \<and> extraction_matches kw (trim wkt)))"
  unfolding wkt_error_iff_no_branch branch_None by (simp add: wkt_keywords_def)

lemma wkt_result_cases:
  "wktToGeoJSONExtended wkt
     = Inl (Error ''Invalid WKT format: Unsupported WKT geometry type or invalid format'')
   \<or> (\<exists>g. wktToGeoJSONExtended wkt = Inr g)"
  by (simp only: wktToGeoJSONExtended.simps [of wkt] Let_def)
     (simp split: option.splits)

lemma polygon_unbalanced:
  "wktToGeoJSONExtended ''POLYGON(1 2, 3 4''
     = Inl (Error ''Invalid WKT format: Unsupported WKT geometry type or invalid format'')"
  by (simp add: wktToGeoJSONExtended.simps [of "''POLYGON(1 2, 3 4''"] wkt_eval)

text \<open>
  C8: \<open>wktToGeoJSONExtended\<close> throws, with the message "Invalid WKT format: ..."
  that wraps the error of the last line of its body, exactly when the trimmed input
  starts with none of the seven keywords followed by an opening parenthesis, or it
  starts with one and the extraction of that branch finds no match; in every other case
  it returns a geometry. In particular "POLYGON(1 2, 3 4", where the parenthesis is not
  closed, is rejected with this error.
\<close>

theorem wkt_error_exactly_when:
  "((wktToGeoJSONExtended wkt
      = Inl (Error ''Invalid WKT format: Unsupported WKT geometry type or invalid format''))
    = (list_all (\<lambda>kw. \<not> starts_with_keyword kw (trim wkt)) wkt_keywords
       \<or> list_ex (\<lambda>kw. starts_with_keyword kw (trim wkt)
                         \<and> \<not> extraction_matches kw (trim wkt)) wkt_keywords))
   \<and> ((\<exists>g. wktToGeoJSONExtended wkt = Inr g)
    = (\<not> (list_all (\<lambda>kw. \<not> starts_with_keyword kw (trim wkt)) wkt_keywords
       \<or> list_ex (\<lambda>kw. starts_with_keyword kw (trim wkt)
                         \<and> \<not> extraction_matches kw (trim wkt)) wkt_keywords)))
   \<and> wktToGeoJSONExtended ''POLYGON(1 2, 3 4''
     = Inl (Error ''Invalid WKT format: Unsupported WKT geometry type or invalid format'')"
proof -
  let ?P = "\<lambda>kw. starts_with_keyword kw (trim wkt)"
  let ?E = "\<lambda>kw. extraction_matches kw (trim wkt)"
  have uniq: "a = b" if "?P a" "?P b" "a \<in> set wkt_keywords" "b \<in> set wkt_keywords" for a b
    using that by (rule recognised_unique)
  have "(\<forall>kw \<in> set wkt_keywords. \<not> (?P kw \<and> ?E kw))
        = ((\<forall>kw \<in> set wkt_keywords. \<not> ?P kw)
           \<or> (\<exists>kw \<in> set wkt_keywords. ?P kw \<and> \<not> ?E kw))"
    using uniq by blast
  then have 1: "(wktToGeoJSONExtended wkt
      = Inl (Error ''Invalid WKT format: Unsupported WKT geometry type or invalid format''))
   = (list_all (\<lambda>kw. \<not> ?P kw) wkt_keywords
      \<or> list_ex (\<lambda>kw. ?P kw \<and> \<not> ?E kw) wkt_keywords)"
    unfolding wkt_error_iff_all by (simp add: list_all_iff list_ex_iff)
  have 2: "(\<exists>g. wktToGeoJSONExtended wkt = Inr g)
   = (\<not> (list_all (\<lambda>kw. \<not> ?P kw) wkt_keywords
           \<or> list_ex (\<lambda>kw. ?P kw \<and> \<not> ?E kw) wkt_keywords))"
    unfolding 1 [symmetric] using wkt_result_cases [of wkt] by auto
  from 1 2 polygon_unbalanced show ?thesis by simp
qed

text \<open>Witness of C8: a text with an unknown keyword is rejected, a point is accepted.\<close>

theorem wkt_error_witness:
  "wktToGeoJSONExtended ''CIRCLE(1 2)''
     
     = Inl (Error ''Invalid WKT format: Unsupported WKT geometry type or invalid format'')
   \<and> (\<exists>g. wktToGeoJSONExtended ''POINT(1 2)'' = Inr g)"
proof -
  have 1: "list_all (\<lambda>kw. \<not> starts_with_keyword kw (trim ''CIRCLE(1 2)'')) wkt_keywords"
    by (simp add: wkt_keywords_def wkt_eval)
  have 2: "\<not> (list_all (\<lambda>kw. \<not> starts_with_keyword kw (trim ''POINT(1 2)'')) wkt_keywords
      \<or> list_ex (\<lambda>kw. starts_with_keyword kw (trim ''POINT(1 2)'')
                         \<and> \<not> extraction_matches kw (trim ''POINT(1 2)'')) wkt_keywords)"
    by (simp add: wkt_keywords_def extraction_matches_def wkt_eval)
  show ?thesis
    using wkt_error_exactly_when [of "''CIRCLE(1 2)''"] wkt_error_exactly_when [of "''POINT(1 2)''"]
      1 2 by blast
qed


subsection \<open>Evaluation on concrete texts\<close>

text \<open>
  C3: the text "POINT(13.4050 52.5200)" is converted to the point with coordinates
  [52.52, 13.405]: the second number of the text comes first in the array.
\<close>

theorem wkt_point_example:
  "wktToGeoJSONExtended ''POINT(13.4050 52.5200)''
     = Inr (Point [Finite 5252 (- 2), Finite 13405 (- 3)])"
  by (simp add: wktToGeoJSONExtended.simps [of "''POINT(13.4050 52.5200)''"] wkt_eval)

text \<open>
  C7: the line string with coordinates [[13.405, 52.52], [13.41, 52.53]] is written as
  "LINESTRING(13.405 52.52, 13.41 52.53)", as the claim says; but reading that text back
  gives [[52.52, 13.405], [52.53, 13.41]], each position with its two numbers exchanged,
  and not the array that was written.
\<close>

theorem linestring_example:
  "geoJSONToWKTExtended
       (LineString [[Finite 13405 (- 3), Finite 5252 (- 2)],
                    [Finite 1341 (- 2), Finite 5253 (- 2)]])
     = Inr ''LINESTRING(13.405 52.52, 13.41 52.53)''
   \<and> wktToGeoJSONExtended ''LINESTRING(13.405 52.52, 13.41 52.53)''
     = Inr (LineString [[Finite 5252 (- 2), Finite 13405 (- 3)],
                        [Finite 5253 (- 2), Finite 1341 (- 2)]])"
  by (simp add: wktToGeoJSONExtended.simps [of "''LINESTRING(13.405 52.52, 13.41 52.53)''"]
        wkt_eval wkt_print)

text \<open>
  C1: the round trip does not give the geometry back. The point [13.405, 52.52] is
  written as "POINT(13.405 52.52)", which is read as the point [52.52, 13.405]; and the
  text "POINT(13.405 52.52)" is read and written back as "POINT(52.52 13.405)".
\<close>

theorem point_round_trip_swaps:
  "geoJSONToWKTExtended (Point [Finite 13405 (- 3), Finite 5252 (- 2)])
     = Inr ''POINT(13.405 52.52)''
   \<and> wktToGeoJSONExtended ''POINT(13.405 52.52)''
     = Inr (Point [Finite 5252 (- 2), Finite 13405 (- 3)])
   \<and> geoJSONToWKTExtended (Point [Finite 5252 (- 2), Finite 13405 (- 3)])
     = Inr ''POINT(52.52 13.405)''"
  by (simp add: wktToGeoJSONExtended.simps [of "''POINT(13.405 52.52)''"] wkt_eval wkt_print)

subsection \<open>The order of the two numbers of a token\<close>

lemma trim_id:
  assumes "s \<noteq> []" "\<not> is_space (hd s)" "\<not> is_space (last s)"
  shows "trim s = s"
proof -
  from assms(1,2) have 1: "dropWhile is_space s = s"
    by (cases s) simp_all
  from assms(1,3) have 2: "dropWhile is_space (rev s) = rev s"
    by (cases "rev s") (simp_all add: last_rev [symmetric] del: last_rev)
  show ?thesis by (simp add: trim_def 1 2)
qed

lemma split_re_word:
  "list_all (\<lambda>c. \<not> is_space c) x
   \<Longrightarrow> split_re spaces_sep 0 acc (x @ s) = split_re spaces_sep 0 (rev x @ acc) s"
  by (induction x arbitrary: acc) (simp_all add: spaces_sep_def)

lemma split_re_two_words:
  assumes x: "list_all (\<lambda>c. \<not> is_space c) x" and y: "list_all (\<lambda>c. \<not> is_space c) y"
    and ne: "y \<noteq> []"
  shows "split_re spaces_sep 0 [] (x @ '' '' @ y) = [x, y]"
proof -
  from ne obtain c cs where ycs: "y = c # cs" by (cases y) auto
  with y have c: "\<not> is_space c" by simp
  have sp: "spaces_sep (CHR '' '' # c # cs) = Suc 0"
    using c by (simp add: spaces_sep_def is_space_def)
  have "split_re spaces_sep 0 [] (x @ '' '' @ y) = split_re spaces_sep 0 (rev x) ('' '' @ y)"
    using split_re_word [OF x, of "[]" "'' '' @ y"] by simp
  also have "\<dots> = x # split_re spaces_sep 0 [] (y @ [])"
    by (simp add: ycs sp)
  also have "split_re spaces_sep 0 [] (y @ []) = [y]"
    using split_re_word [OF y, of "[]" "[]"] by simp
  finally show ?thesis .
qed

lemma linestring_swapped:
  "wktToGeoJSONExtended ''LINESTRING(1 2, 3 4)''
     = Inr (LineString [[Finite 2 0, Finite 1 0], [Finite 4 0, Finite 3 0]])"
  by (simp add: wktToGeoJSONExtended.simps [of "''LINESTRING(1 2, 3 4)''"] wkt_eval)

lemma polygon_swapped:
  "wktToGeoJSONExtended ''POLYGON((1 2, 3 4, 5 6, 1 2))''
     = Inr (Polygon [[[Finite 2 0, Finite 1 0], [Finite 4 0, Finite 3 0],
                      [Finite 6 0, Finite 5 0], [Finite 2 0, Finite 1 0]]])"
  by (simp add: wktToGeoJSONExtended.simps [of "''POLYGON((1 2, 3 4, 5 6, 1 2))''"] wkt_eval)

text \<open>
  C2: the parser does exchange the two numbers. For every token "x y" (two words without
  white space, one space between them) the callback of the LineString, Polygon and
  Multi* branches returns the array [parseFloat(y), parseFloat(x)]; so
  "LINESTRING(1 2, 3 4)" is read as [[2, 1], [4, 3]] and "POLYGON((1 2, 3 4, 5 6, 1 2))"
  as [[[2, 1], [4, 3], [6, 5], [2, 1]]].
\<close>

theorem token_is_swapped:
  assumes "x \<noteq> []" "y \<noteq> []"
    and "list_all (\<lambda>c. \<not> is_space c) x" "list_all (\<lambda>c. \<not> is_space c) y"
  shows "coord_of_token (x @ '' '' @ y) = [parseFloat y, parseFloat x]
   \<and> wktToGeoJSONExtended ''LINESTRING(1 2, 3 4)''
     = Inr (LineString [[Finite 2 0, Finite 1 0], [Finite 4 0, Finite 3 0]])
   \<and> wktToGeoJSONExtended ''POLYGON((1 2, 3 4, 5 6, 1 2))''
     = Inr (Polygon [[[Finite 2 0, Finite 1 0], [Finite 4 0, Finite 3 0],
                      [Finite 6 0, Finite 5 0], [Finite 2 0, Finite 1 0]]])"
proof -
  have hd: "\<not> is_space (hd (x @ '' '' @ y))"
    using assms(1,3) by (cases x) simp_all
  have "last (x @ '' '' @ y) = last y"
    using assms(2) by simp
  moreover have "\<not> is_space (last y)"
    using assms(2,4) by (simp add: list_all_iff)
  ultimately have last: "\<not> is_space (last (x @ '' '' @ y))"
    by simp
  have "trim (x @ '' '' @ y) = x @ '' '' @ y"
    using _ hd last by (rule trim_id) simp
  moreover have "split_re spaces_sep 0 [] (x @ CHR '' '' # y) = [x, y]"
    using split_re_two_words [OF assms(3,4,2)] by simp
  ultimately have "coord_of_token (x @ '' '' @ y) = [parseFloat y, parseFloat x]"
    by (simp add: coord_of_token_def)
  with linestring_swapped polygon_swapped show ?thesis by simp
qed

text \<open>Witness of C2: the token "13.405 52.52" gives [52.52, 13.405].\<close>

theorem token_is_swapped_witness:
  "''13.405'' \<noteq> [] \<and> ''52.52'' \<noteq> []
   \<and> list_all (\<lambda>c. \<not> is_space c) ''13.405'' \<and> list_all (\<lambda>c. \<not> is_space c) ''52.52''
   \<and> coord_of_token ''13.405 52.52'' = [Finite 5252 (- 2), Finite 13405 (- 3)]"
proof -
  have x: "list_all (\<lambda>c. \<not> is_space c) ''13.405''" by (simp add: is_space_def)
  have y: "list_all (\<lambda>c. \<not> is_space c) ''52.52''" by (simp add: is_space_def)
  have px: "parseFloat ''13.405'' = Finite 13405 (- 3)" by (simp add: wkt_eval)
  have py: "parseFloat ''52.52'' = Finite 5252 (- 2)" by (simp add: wkt_eval)
  have "coord_of_token (''13.405'' @ '' '' @ ''52.52'')
          = [parseFloat ''52.52'', parseFloat ''13.405'']"
    using token_is_swapped [OF _ _ x y] by simp
  with x y px py show ?thesis by simp
qed

subsection \<open>Geometry collections\<close>

text \<open>
  The group of the GeometryCollection branch ends before the first closing parenthesis,
  so the loop never sees one and \<open>depth\<close> never rises above 0: while it is 0 every
  character that is not white space is handed to the recursive call on its own, which
  rejects it, and after the first opening parenthesis it stays negative.
\<close>

lemma wkt_of_1:
  "wktToGeoJSONExtended ''1'' 
     = Inl (Error ''Invalid WKT format: Unsupported WKT geometry type or invalid format'')"
  by (simp add: wktToGeoJSONExtended.simps [of "''1''"] wkt_eval)

lemma wkt_of_2:
  "wktToGeoJSONExtended ''2'' 
     = Inl (Error ''Invalid WKT format: Unsupported WKT geometry type or invalid format'')"
  by (simp add: wktToGeoJSONExtended.simps [of "''2''"] wkt_eval)

lemma collection_only:
  assumes "starts_with_keyword ''GEOMETRYCOLLECTION'' t"
  shows "point_branch t = None" "linestring_branch t = None" "polygon_branch t = None"
    "multipoint_branch t = None" "multilinestring_branch t = None"
    "multipolygon_branch t = None"
proof -
  have no: "\<not> starts_with_keyword kw t"
    if "kw \<in> set wkt_keywords" "kw \<noteq> ''GEOMETRYCOLLECTION''" for kw
  proof
    assume "starts_with_keyword kw t"
    then have "kw = ''GEOMETRYCOLLECTION''"
      using assms that(1) by (rule recognised_unique) (simp add: wkt_keywords_def)
    with that(2) show False by simp
  qed
  show "point_branch t = None"
    using no [of "''POINT''"] by (simp add: point_branch_def wkt_keywords_def)
  show "linestring_branch t = None"
    using no [of "''LINESTRING''"] by (simp add: linestring_branch_def wkt_keywords_def)
  show "polygon_branch t = None"
    using no [of "''POLYGON''"] by (simp add: polygon_branch_def wkt_keywords_def)
  show "multipoint_branch t = None"
    using no [of "''MULTIPOINT''"] by (simp add: multipoint_branch_def wkt_keywords_def)
  show "multilinestring_branch t = None"
    using no [of "''MULTILINESTRING''"]
    by (simp add: multilinestring_branch_def wkt_keywords_def)
  show "multipolygon_branch t = None"
    using no [of "''MULTIPOLYGON''"] by (simp add: multipolygon_branch_def wkt_keywords_def)
qed

lemma strip_kw_length_sum: "strip_kw kw s = Some r \<Longrightarrow> length s = length kw + length r"
  by (induction kw s rule: strip_kw.induct) (auto split: if_splits)

lemma starts_with_keyword_longer:
  assumes "starts_with_keyword kw s"
  shows "length kw < length s"
proof -
  from assms obtain r b where r: "strip_kw kw s = Some r" and b: "after_open r = Some b"
    by (auto simp: starts_with_keyword_def split: option.splits)
  from b have "length b < length r" by (rule after_open_length)
  with strip_kw_length_sum [OF r] show ?thesis by arith
qed

lemma short_text_rejected:
  assumes "length s \<le> 1"
  shows "wktToGeoJSONExtended s
     = Inl (Error ''Invalid WKT format: Unsupported WKT geometry type or invalid format'')"
proof -
  have "\<not> starts_with_keyword kw (trim s)" if "kw \<in> set wkt_keywords" for kw
  proof
    assume "starts_with_keyword kw (trim s)"
    then have "length kw < length (trim s)" by (rule starts_with_keyword_longer)
    also have "\<dots> \<le> length s" by (rule length_trim)
    finally have "length kw < length s" .
    with assms have "length kw = 0" by arith
    with that show False by (auto simp: wkt_keywords_def)
  qed
  then show ?thesis unfolding wkt_error_iff_all by blast
qed

lemma body_at_no_close: "body_at kw s = Some body \<Longrightarrow> CHR '')'' \<notin> set body"
proof
  assume a: "body_at kw s = Some body" and c: "CHR '')'' \<in> set body"
  from a obtain b where "body = takeWhile in_body b"
    by (auto simp: body_at_def split: option.splits list.splits if_splits)
  with c have "in_body (CHR '')'')" by (auto dest: set_takeWhileD)
  then show False by (simp add: in_body_def)
qed

lemma match_body_no_close: "match_body kw s = Some body \<Longrightarrow> CHR '')'' \<notin> set body"
  unfolding match_body_def
proof (induction s)
  case Nil
  then show ?case by (simp add: body_at_no_close)
next
  case (Cons c cs)
  then show ?case by (cases "body_at kw (c # cs)") (simp_all add: body_at_no_close)
qed

lemma trim_spaces:
  assumes "list_all is_space s"
  shows "trim s = []"
proof -
  from assms have d: "dropWhile is_space s = []"
    by (induction s) simp_all
  show ?thesis unfolding trim_def d by simp
qed

lemma trim_char_spaces:
  assumes "\<not> is_space c" "list_all is_space current"
  shows "trim (c # current) = [c]"
proof -
  have "dropWhile is_space (rev current @ [c]) = dropWhile is_space [c]"
    using assms(2) by (intro dropWhile_append2) (simp add: list_all_iff)
  with assms(1) show ?thesis by (simp add: trim_def)
qed

lemma collection_loop_empty:
  assumes parse: "\<And>c. \<exists>e. parse [c] = Inl e"
  shows "CHR '')'' \<notin> set chars
    \<Longrightarrow> (depth = 0 \<and> list_all is_space current) \<or> depth < 0
    \<Longrightarrow> collection_loop parse chars depth current [] = []"
proof (induction chars arbitrary: depth current)
  case Nil
  show ?case by simp
next
  case (Cons c cs)
  from Cons.prems(1) have c: "c \<noteq> CHR '')''" and cs: "CHR '')'' \<notin> set cs" by auto
  show ?case
  proof (cases "c = CHR ''(''")
    case True
    from Cons.prems(2) have neg: "depth - 1 < 0" by auto
    have "collection_loop parse cs (depth - 1) (c # current) [] = []"
      using cs neg by (intro Cons.IH) simp_all
    with True neg show ?thesis by (simp add: Let_def)
  next
    case False
    show ?thesis
    proof (cases "depth < 0")
      case True
      have "collection_loop parse cs depth (c # current) [] = []"
        using cs True by (intro Cons.IH) simp_all
      with c False True show ?thesis by (simp add: Let_def)
    next
      case nonneg: False
      with Cons.prems(2) have d: "depth = 0" and sp: "list_all is_space current" by auto
      show ?thesis
      proof (cases "is_space c")
        case True
        with sp have all: "list_all is_space (c # current)" by simp
        have "collection_loop parse cs 0 (c # current) [] = []"
          using cs all by (intro Cons.IH) simp_all
        with c False d trim_spaces [OF all] show ?thesis by (simp add: Let_def)
      next
        case nsp: False
        have t: "trim (c # current) = [c]" using nsp sp by (rule trim_char_spaces)
        obtain e where e: "parse [c] = Inl e" using parse by blast
        have "collection_loop parse cs 0 [] [] = []"
          using cs by (intro Cons.IH) simp_all
        with c False d t e show ?thesis by (simp add: Let_def)
      qed
    qed
  qed
qed

lemma collection_branch_result:
  assumes "starts_with_keyword ''GEOMETRYCOLLECTION'' (trim wkt)"
  shows "wktToGeoJSONExtended wkt
     = (case match_body ''GEOMETRYCOLLECTION'' (trim wkt) of
          None \<Rightarrow>
            Inl (Error ''Invalid WKT format: Unsupported WKT geometry type or invalid format'')
        | Some body \<Rightarrow>
            Inr (GeometryCollection
                   (collection_loop wktToGeoJSONExtended (rev body) 0 [] [])))"
  by (simp only: wktToGeoJSONExtended.simps [of wkt] Let_def collection_only [OF assms])
     (simp add: assms split: option.splits)

text \<open>
  C4: the members of a collection are lost. For every input that starts with
  GEOMETRYCOLLECTION and an opening parenthesis the function either throws the
  "Invalid WKT format" error or returns a collection with no member at all; so
  "GEOMETRYCOLLECTION(POINT(1 2))", whose only member is well-formed, gives an empty
  collection and not one that holds the point.
\<close>

theorem collection_members_lost:
  assumes "starts_with_keyword ''GEOMETRYCOLLECTION'' (trim wkt)"
  shows "(wktToGeoJSONExtended wkt
            = Inl (Error ''Invalid WKT format: Unsupported WKT geometry type or invalid format'')
          \<or> wktToGeoJSONExtended wkt = Inr (GeometryCollection []))
   \<and> wktToGeoJSONExtended ''GEOMETRYCOLLECTION(POINT(1 2))'' = Inr (GeometryCollection [])"
proof -
  have single: "\<exists>e. wktToGeoJSONExtended [c] = Inl e" for c
    using short_text_rejected [of "[c]"] by simp
  have general: "wktToGeoJSONExtended wkt
            = Inl (Error ''Invalid WKT format: Unsupported WKT geometry type or invalid format'')
          \<or> wktToGeoJSONExtended wkt = Inr (GeometryCollection [])"
  proof (cases "match_body ''GEOMETRYCOLLECTION'' (trim wkt)")
    case None
    then show ?thesis by (simp add: collection_branch_result [OF assms])
  next
    case (Some body)
    then have "CHR '')'' \<notin> set (rev body)"
      using match_body_no_close [OF Some] by simp
    then have "collection_loop wktToGeoJSONExtended (rev body) 0 [] [] = []"
      using single by (intro collection_loop_empty) simp_all
    with Some show ?thesis by (simp add: collection_branch_result [OF assms])
  qed
  have concrete:
    "wktToGeoJSONExtended ''GEOMETRYCOLLECTION(POINT(1 2))'' = Inr (GeometryCollection [])"
    by (simp add: wktToGeoJSONExtended.simps [of "''GEOMETRYCOLLECTION(POINT(1 2))''"]
          wkt_eval wkt_of_1 wkt_of_2)
  from general concrete show ?thesis by (rule conjI)
qed

text \<open>
  Witness of C4: a collection of a point and a line string is recognised and comes back
  empty.
\<close>

theorem collection_members_lost_witness:
  "starts_with_keyword ''GEOMETRYCOLLECTION''
     (trim ''GEOMETRYCOLLECTION(POINT(1 2), LINESTRING(3 4, 5 6))'')
   \<and> wktToGeoJSONExtended ''GEOMETRYCOLLECTION(POINT(1 2), LINESTRING(3 4, 5 6))''
       = Inr (GeometryCollection [])"
proof -
  have h: "starts_with_keyword ''GEOMETRYCOLLECTION''
             (trim ''GEOMETRYCOLLECTION(POINT(1 2), LINESTRING(3 4, 5 6))'')"
    by (simp add: wkt_eval)
  have m: "extraction_matches ''GEOMETRYCOLLECTION''
             (trim ''GEOMETRYCOLLECTION(POINT(1 2), LINESTRING(3 4, 5 6))'')"
    by (simp add: extraction_matches_def wkt_eval)
  have "wktToGeoJSONExtended ''GEOMETRYCOLLECTION(POINT(1 2), LINESTRING(3 4, 5 6))''
          \<noteq> Inl (Error ''Invalid WKT format: Unsupported WKT geometry type or invalid format'')"
    unfolding wkt_error_iff_all using h m by (auto simp: wkt_keywords_def)
  with h collection_members_lost [OF h] show ?thesis by simp
qed


end
